theory Spec2Isabelle
  imports Complex_Main
begin

unbundle bit_operations_syntax

section \<open>Martini: RTIN terrain meshes (src/index.js)\<close>

text \<open>
  JavaScript numbers that hold integers (grid sizes, coordinates, array positions, vertex
  numbers) are modelled as \<open>int\<close>; terrain heights, errors and the two thresholds are
  modelled as \<open>real\<close>, that is, the floating point arithmetic of the source is taken to be
  exact. \<open>x >> 1\<close> is \<open>x div 2\<close> and \<open>x & y\<close> is \<open>x AND y\<close> on \<open>int\<close>: both agree with
  the 32-bit operators of the source on every operand below \<open>2 ^ 32\<close> as far as the source
  uses the result (a halving of a sum of two coordinates, and a test against zero).

  A typed array is a list. A store into a \<open>Uint16Array\<close> or a \<open>Uint32Array\<close> keeps the
  value modulo \<open>2 ^ 16\<close> or \<open>2 ^ 32\<close>. JavaScript answers a read outside a typed array
  with \<open>undefined\<close> and drops a write outside it; the model reports either as the error
  \<open>OutOfBounds\<close>, so that a result \<open>Inr\<close> also says that every access was in range.
\<close>

subsection \<open>Errors and typed arrays\<close>

datatype error =
    GridSizeError int          \<comment> \<open>Error: Expected grid size to be 2^n+1, got ...\<close>
  | TerrainLengthError int int \<comment> \<open>Error: Expected terrain data of length ..., got ...\<close>
  | InvalidArrayLength int     \<comment> \<open>RangeError: Invalid typed array length\<close>
  | StackOverflow              \<comment> \<open>RangeError: Maximum call stack size exceeded\<close>
  | OutOfBounds                \<comment> \<open>an access outside a typed array\<close>

fun bnd :: "error + 'a \<Rightarrow> ('a \<Rightarrow> error + 'b) \<Rightarrow> error + 'b" where
  "bnd (Inl e) f = Inl e"
| "bnd (Inr x) f = f x"

definition new_array :: "int \<Rightarrow> error + ('a::zero) list" where
  "new_array n = (if n < 0 then Inl (InvalidArrayLength n) else Inr (replicate (nat n) 0))"

definition rd :: "'a list \<Rightarrow> int \<Rightarrow> error + 'a" where
  "rd xs i = (if 0 \<le> i \<and> i < int (length xs) then Inr (xs ! nat i) else Inl OutOfBounds)"

definition wr :: "'a list \<Rightarrow> int \<Rightarrow> 'a \<Rightarrow> error + 'a list" where
  "wr xs i v = (if 0 \<le> i \<and> i < int (length xs) then Inr (xs[nat i := v]) else Inl OutOfBounds)"

definition u16 :: "int \<Rightarrow> int" where
  "u16 v = v mod 65536"


subsection \<open>class Martini\<close>

record Martini =
  gridSize :: int
  numTriangles :: int
  numParentTriangles :: int
  indices :: "int list"
  coords :: "int list"

text \<open>The start of the descent (lines 20-25): the root triangle chosen by the lowest bit.\<close>

definition root_triangle :: "int \<Rightarrow> int \<Rightarrow> int \<times> int \<times> int \<times> int \<times> int \<times> int" where
  "root_triangle tileSize ident =
     (if ident AND 1 \<noteq> 0 then (0, 0, tileSize, tileSize, tileSize, 0)
      else (tileSize, tileSize, 0, 0, 0, tileSize))"

text \<open>The \<open>while ((id >>= 1) > 1)\<close> loop (lines 26-38).\<close>

function descend :: "int \<Rightarrow> int \<times> int \<times> int \<times> int \<times> int \<times> int \<Rightarrow> int \<times> int \<times> int \<times> int" where
  "descend ident (ax, ay, bx, by, cx, cy) =
     (let ident' = ident div 2 in
      if ident' > 1 then
        (let mx = (ax + bx) div 2; my = (ay + by) div 2 in
         if ident' AND 1 \<noteq> 0 then descend ident' (cx, cy, ax, ay, mx, my)
         else descend ident' (bx, by, cx, cy, mx, my))
      else (ax, ay, bx, by))"
  by pat_completeness auto
termination
  by (relation "measure (\<lambda>(ident, t). nat ident)") auto

definition triangle_coords :: "int \<Rightarrow> int \<Rightarrow> int \<times> int \<times> int \<times> int" where
  "triangle_coords tileSize i = descend (i + 2) (root_triangle tileSize (i + 2))"

text \<open>The \<open>for\<close> loop over all triangles (lines 18-44), from \<open>i\<close> on.\<close>

function coords_loop :: "int \<Rightarrow> int \<Rightarrow> int \<Rightarrow> int list \<Rightarrow> error + int list" where
  "coords_loop tileSize n i cs =
     (if i < n then
        (case triangle_coords tileSize i of (ax, ay, bx, by) \<Rightarrow>
           (let k = i * 4 in
            bnd (wr cs (k + 0) (u16 ax)) (\<lambda>cs.
            bnd (wr cs (k + 1) (u16 ay)) (\<lambda>cs.
            bnd (wr cs (k + 2) (u16 bx)) (\<lambda>cs.
            bnd (wr cs (k + 3) (u16 by)) (\<lambda>cs.
            coords_loop tileSize n (i + 1) cs))))))
      else Inr cs)"
  by pat_completeness auto
termination
  by (relation "measure (\<lambda>(tileSize, n, i, cs). nat (n - i))") auto

definition Martini_new :: "int \<Rightarrow> error + Martini" where
  "Martini_new gridSize' =
     (let tileSize = gridSize' - 1 in
      if tileSize AND (tileSize - 1) \<noteq> 0 then Inl (GridSizeError gridSize')
      else
        (let numTriangles' = tileSize * tileSize * 2 - 2;
             numParentTriangles' = numTriangles' - tileSize * tileSize in
         bnd (new_array (gridSize' * gridSize')) (\<lambda>indices'.
         bnd (new_array (numTriangles' * 4)) (\<lambda>coords'.
         bnd (coords_loop tileSize numTriangles' 0 coords') (\<lambda>coords''.
         Inr \<lparr> gridSize = gridSize', numTriangles = numTriangles',
               numParentTriangles = numParentTriangles',
               indices = indices', coords = coords'' \<rparr>)))))"


text \<open>\<open>createTile\<close> is \<open>Tile_new\<close> below with the arguments swapped.\<close>

subsection \<open>class Tile\<close>

record Tile =
  terrain :: "real list"
  martini :: Martini
  errors :: "real list"

text \<open>One round of the loop of \<open>update\<close> (lines 70-91), for the triangle \<open>i\<close>.\<close>

definition update_step :: "Martini \<Rightarrow> real list \<Rightarrow> int \<Rightarrow> real list \<Rightarrow> error + real list" where
  "update_step m terrain' i errors' =
     (let size = gridSize m; k = i * 4 in
      bnd (rd (coords m) (k + 0)) (\<lambda>ax.
      bnd (rd (coords m) (k + 1)) (\<lambda>ay.
      bnd (rd (coords m) (k + 2)) (\<lambda>bx.
      bnd (rd (coords m) (k + 3)) (\<lambda>by.
      (let mx = (ax + bx) div 2;
           my = (ay + by) div 2;
           cx = mx + my - ay;
           cy = my + ax - mx in
       bnd (rd terrain' (ay * size + ax)) (\<lambda>ta.
       bnd (rd terrain' (by * size + bx)) (\<lambda>tb.
       (let interpolatedHeight = (ta + tb) / 2;
            middleIndex = my * size + mx in
        bnd (rd terrain' middleIndex) (\<lambda>tm.
        (let middleError = \<bar>interpolatedHeight - tm\<bar> in
         bnd (rd errors' middleIndex) (\<lambda>e0.
         bnd (wr errors' middleIndex (max e0 middleError)) (\<lambda>errors'.
         if i < numParentTriangles m then
           (let leftChildIndex = ((ay + cy) div 2) * size + ((ax + cx) div 2);
                rightChildIndex = ((by + cy) div 2) * size + ((bx + cx) div 2) in
            bnd (rd errors' middleIndex) (\<lambda>e1.
            bnd (rd errors' leftChildIndex) (\<lambda>el.
            bnd (rd errors' rightChildIndex) (\<lambda>er.
            wr errors' middleIndex (max e1 (max el er))))))
         else Inr errors')))))))))))))"

text \<open>The loop of \<open>update\<close> (line 69), from \<open>i\<close> down to 0.\<close>

function update_loop :: "Martini \<Rightarrow> real list \<Rightarrow> int \<Rightarrow> real list \<Rightarrow> error + real list" where
  "update_loop m terrain' i errors' =
     (if i \<ge> 0 then
        bnd (update_step m terrain' i errors') (\<lambda>errors'.
        update_loop m terrain' (i - 1) errors')
      else Inr errors')"
  by pat_completeness auto
termination
  by (relation "measure (\<lambda>(m, terrain', i, errors'). nat (i + 1))") auto

definition update :: "Martini \<Rightarrow> real list \<Rightarrow> real list \<Rightarrow> error + real list" where
  "update m terrain' errors' = update_loop m terrain' (numTriangles m - 1) errors'"

definition Tile_new :: "real list \<Rightarrow> Martini \<Rightarrow> error + Tile" where
  "Tile_new terrain' m =
     (let size = gridSize m in
      if int (length terrain') \<noteq> size * size
      then Inl (TerrainLengthError (size * size) (int (length terrain')))
      else
        bnd (new_array (int (length terrain'))) (\<lambda>errors'.
        bnd (update m terrain' errors') (\<lambda>errors'.
        Inr \<lparr> terrain = terrain', martini = m, errors = errors' \<rparr>)))"

subsection \<open>getMesh\<close>













section \<open>Construction of the grid\<close>

lemma pow2_and_pred: "(2::int) ^ n AND (2 ^ n - 1) = 0"
  by (metis cancel_comm_monoid_add_class.diff_cancel mask_eq_exp_minus_1
    push_bit_eq_0_iff push_bit_of_1 take_bit_0 take_bit_eq_mask
    take_bit_push_bit)

lemma wr_Inr: "0 \<le> i \<Longrightarrow> i < int (length xs) \<Longrightarrow> wr xs i v = Inr (xs[nat i := v])"
  by (simp add: wr_def)

lemma rd_Inr: "0 \<le> i \<Longrightarrow> i < int (length xs) \<Longrightarrow> rd xs i = Inr (xs ! nat i)"
  by (simp add: rd_def)

lemma quad_pos: "r < 4 \<Longrightarrow> (4 * j + r) div 4 = (j::nat) \<and> (4 * j + r) mod 4 = r"
  by simp

text \<open>What the loop of the constructor leaves at position \<open>k\<close> of \<open>coords\<close>.\<close>

definition coords_entry :: "int \<Rightarrow> nat \<Rightarrow> int" where
  "coords_entry tileSize k =
     (case triangle_coords tileSize (int (k div 4)) of (ax, ay, bx, by) \<Rightarrow>
        u16 ([ax, ay, bx, by] ! (k mod 4)))"

lemma coords_loop_ok:
  "0 \<le> i \<Longrightarrow> length cs = nat (4 * n) \<Longrightarrow>
   \<exists>cs'. coords_loop T n i cs = Inr cs' \<and> length cs' = length cs \<and>
     (\<forall>k < length cs. cs' ! k = (if nat (4 * i) \<le> k then coords_entry T k else cs ! k))"
proof (induction T n i cs rule: coords_loop.induct)
  case (1 T n i cs)
  show ?case
  proof (cases "i < n")
    case False
    with 1(2,3) show ?thesis by (subst coords_loop.simps) auto
  next
    case True
    obtain ax ay bx "by" where tc: "triangle_coords T i = (ax, ay, bx, by)"
      by (cases "triangle_coords T i") auto
    let ?k = "nat (4 * i)"
    let ?cs4 = "cs[?k := u16 ax, ?k + 1 := u16 ay, ?k + 2 := u16 bx, ?k + 3 := u16 by]"
    have len: "?k + 3 < length cs" using True 1(2,3) by simp
    have leni: "i * 4 + 3 < int (length cs)" using True 1(2,3) by simp
    have nats: "nat (i * 4) = ?k" "nat (i * 4 + 1) = ?k + 1" "nat (i * 4 + 2) = ?k + 2"
      "nat (i * 4 + 3) = ?k + 3"
      using 1(2) by (simp_all add: nat_add_distrib mult.commute)
    have step: "coords_loop T n i cs = coords_loop T n (i + 1) ?cs4"
      using True tc len leni 1(2) by (subst coords_loop.simps) (simp add: wr_def nats Let_def)
    have "\<exists>cs'. coords_loop T n (i + 1) ?cs4 = Inr cs' \<and> length cs' = length ?cs4 \<and>
     (\<forall>k < length ?cs4. cs' ! k = (if nat (4 * (i + 1)) \<le> k then coords_entry T k else ?cs4 ! k))"
      using 1(1)[OF True, of ax "(ay, bx, by)" ay "(bx, by)" bx "by" "i * 4" ?cs4] tc 1(2,3)
      by simp
    then obtain cs' where r: "coords_loop T n (i + 1) ?cs4 = Inr cs'" "length cs' = length ?cs4"
      "\<forall>k < length ?cs4. cs' ! k = (if nat (4 * (i + 1)) \<le> k then coords_entry T k else ?cs4 ! k)"
      by blast
    have "cs' ! k = (if ?k \<le> k then coords_entry T k else cs ! k)" if k: "k < length cs" for k
    proof -
      have n4: "nat (4 * (i + 1)) = ?k + 4" using 1(2) by (simp add: nat_add_distrib)
      consider "k < ?k" | "k = ?k" | "k = ?k + 1" | "k = ?k + 2" | "k = ?k + 3" | "?k + 4 \<le> k"
        by linarith
      then show ?thesis
      proof cases
        case 1 then show ?thesis using r(3) k n4 by simp
      next
        case 2
        have "k = 4 * nat i + 0" using 2 \<open>0 \<le> i\<close> by (simp add: nat_mult_distrib)
        then have "k div 4 = nat i \<and> k mod 4 = 0" using quad_pos[of 0 "nat i"] by simp
        then show ?thesis using r(3) k n4 2 tc len \<open>0 \<le> i\<close> by (simp add: coords_entry_def)
      next
        case 3
        have "k = 4 * nat i + 1" using 3 \<open>0 \<le> i\<close> by (simp add: nat_mult_distrib)
        then have "k div 4 = nat i \<and> k mod 4 = 1" using quad_pos[of 1 "nat i"] by simp
        then show ?thesis using r(3) k n4 3 tc len \<open>0 \<le> i\<close> by (simp add: coords_entry_def)
      next
        case 4
        have "k = 4 * nat i + 2" using 4 \<open>0 \<le> i\<close> by (simp add: nat_mult_distrib)
        then have "k div 4 = nat i \<and> k mod 4 = 2" using quad_pos[of 2 "nat i"] by simp
        then show ?thesis using r(3) k n4 4 tc len \<open>0 \<le> i\<close> by (simp add: coords_entry_def)
      next
        case 5
        have "k = 4 * nat i + 3" using 5 \<open>0 \<le> i\<close> by (simp add: nat_mult_distrib)
        then have "k div 4 = nat i \<and> k mod 4 = 3" using quad_pos[of 3 "nat i"] by simp
        then show ?thesis using r(3) k n4 5 tc len \<open>0 \<le> i\<close> by (simp add: coords_entry_def)
      next
        case 6 then show ?thesis using r(3) k n4 by simp
      qed
    qed
    then show ?thesis using step r by simp
  qed
qed

text \<open>A grid of size \<open>2 ^ n + 1\<close> is constructed, and this is what it holds.\<close>

lemma Martini_new_pow2:
  "\<exists>cs. Martini_new (2 ^ n + 1) =
     Inr \<lparr> gridSize = 2 ^ n + 1, numTriangles = 2 ^ n * 2 ^ n * 2 - 2,
           numParentTriangles = 2 ^ n * 2 ^ n - 2,
           indices = replicate (nat ((2 ^ n + 1) * (2 ^ n + 1))) 0, coords = cs \<rparr> \<and>
     length cs = nat (4 * (2 ^ n * 2 ^ n * 2 - 2)) \<and>
     (\<forall>k < length cs. cs ! k = coords_entry (2 ^ n) k)"
proof -
  let ?N = "(2::int) ^ n * 2 ^ n * 2 - 2"
  have N: "0 \<le> ?N"
  proof -
    have "(1::int) \<le> 2 ^ n" by simp
    then have "(1::int) * 1 \<le> 2 ^ n * 2 ^ n" by (rule mult_mono) simp_all
    then show ?thesis by simp
  qed
  obtain cs where cs: "coords_loop (2 ^ n) ?N 0 (replicate (nat (?N * 4)) 0) = Inr cs"
    "length cs = nat (4 * ?N)" "\<forall>k < length cs. cs ! k = coords_entry (2 ^ n) k"
    using coords_loop_ok[of 0 "replicate (nat (?N * 4)) 0" ?N "2 ^ n"] by (auto simp: mult.commute)
  show ?thesis
    using cs N by (simp add: Martini_new_def pow2_and_pred new_array_def Let_def)
qed

lemma Martini_new_3:
  "Martini_new 3 = Inr \<lparr>gridSize = 3, numTriangles = 6, numParentTriangles = 2,
     indices = [0, 0, 0, 0, 0, 0, 0, 0, 0],
     coords = [2, 2, 0, 0, 0, 0, 2, 2, 0, 0, 0, 2, 2, 2, 2, 0, 0, 2, 2, 2, 2, 0, 0, 0]\<rparr>"
  by code_simp

text \<open>
  Claim C9. Every grid that the constructor returns stores
  \<open>numTriangles = 2 T\<^sup>2 - 2\<close> and \<open>numParentTriangles = T\<^sup>2 - 2\<close>, where
  \<open>T = gridSize - 1\<close>.
\<close>

theorem C9_triangle_counts:
  "Martini_new g = Inr m \<Longrightarrow>
   numTriangles m = 2 * (g - 1)\<^sup>2 - 2 \<and> numParentTriangles m = (g - 1)\<^sup>2 - 2"
  by (auto simp: Martini_new_def Let_def new_array_def power2_eq_square
      split: if_splits sum.splits elim!: bnd.elims)

theorem C9_triangle_counts_witness:
  "\<exists>m. Martini_new 3 = Inr m \<and> numTriangles m = 6 \<and> numParentTriangles m = 2"
  using C9_triangle_counts[OF Martini_new_3] Martini_new_3 by simp

text \<open>
  Claim C5. Grid construction is said to fail with the grid size error for every size that
  is not a power of two plus one. At \<open>gridSize = 1\<close> the test \<open>tileSize & (tileSize - 1)\<close>
  lets the size through, and the constructor fails later, in the allocation of \<open>coords\<close>
  with the length \<open>-8\<close>.
\<close>

theorem C5_grid_size_one: "Martini_new 1 = Inl (InvalidArrayLength (- 8))"
  by (simp add: Martini_new_def new_array_def)

section \<open>The mesh\<close>


end
